theory Spec2Isabelle
  imports Main "HOL-Library.Word"
begin

unbundle bit_operations_syntax

section \<open>Python values shared by the Prober and the Correlator\<close>

text \<open>
  The exceptions that the source names or that the modelled calls raise:
  \<open>AttributeError\<close> (caught in \<open>execute\<close>, raised by an attribute read on \<open>None\<close>),
  \<open>struct.error\<close> (caught in \<open>notify_uplink_detected\<close>), \<open>UnpackException\<close> (the
  exception the docstring of \<open>unpack_non_empty\<close> announces) and \<open>RuntimeError\<close>
  (raised by iterating over a dictionary that is being resized). \<open>AttributeError\<close> is
  also what calling \<open>pack\<close> on a plain integer raises.
\<close>

datatype exn = AttributeError | StructError | UnpackException | RuntimeError

text \<open>
  Bytes, and the fixed-width integers of the spec's data model: an unsigned 16-bit port
  number, a 6-byte hardware address, and the datapath identifier, a 64-bit integer (the
  eight octets of its canonical string form).
\<close>

type_synonym byte = "8 word"
type_synonym bytes = "byte list"
type_synonym port_no = "16 word"
type_synonym dpid = "64 word"
type_synonym hw_address = "48 word"

text \<open>
  \<open>unpack_non_empty\<close> accepts raw bytes or an object with a \<open>value\<close> attribute
  (pyof's \<open>BinaryData\<close>).
\<close>

datatype pydata = RawBytes bytes | BinaryData bytes

text \<open>An attribute that an object may lack: reading it raises \<open>AttributeError\<close>.\<close>

datatype 'a attr = Missing | Has 'a

fun getattr :: "'a attr \<Rightarrow> exn + 'a" where
  "getattr Missing = Inl AttributeError"
| "getattr (Has v) = Inr v"

section \<open>The inventory: switches, connections, interfaces\<close>

record protocol =
  version :: "int option attr"

record connection =
  conn_id :: nat
  protocol :: "protocol attr"

text \<open>
  A port number as the inventory holds it: a plain Python integer, or an object of pyof's
  \<open>UBInt16\<close>. Both compare equal to the integer they hold (line 38); only the object
  has a \<open>pack\<close> method.
\<close>

datatype port_value = PyInt port_no | UBInt16 port_no

fun port_no_of :: "port_value \<Rightarrow> port_no" where
  "port_no_of (PyInt n) = n"
| "port_no_of (UBInt16 n) = n"

record interface =
  port_number :: port_value
  address :: hw_address

text \<open>
  A switch as \<open>execute\<close> and \<open>notify_uplink_detected\<close> read it. \<open>ident\<close> is the
  attribute \<open>id\<close>. \<open>connection\<close> is \<open>None\<close> for a switch without a connection.
  \<open>is_connected\<close> is what the call \<open>switch.is_connected()\<close> returns. \<open>interfaces\<close> is
  what iterating over \<open>switch.interfaces.values()\<close> gives: the interfaces that the
  iteration yields, one after the other, and the exception that ends it, if any (line 25
  copies the list of switches before the loop, line 35 iterates over the live dictionary
  itself, which raises \<open>RuntimeError\<close> once the dictionary has been resized).
\<close>

record switch =
  ident :: string
  dpid :: dpid
  connection :: "connection option"
  is_connected :: bool
  interfaces :: "interface list \<times> exn option"

section \<open>Messages and events\<close>

text \<open>
  The two families of message classes, \<open>AO10\<close> with \<open>PO10\<close> and \<open>AO13\<close> with
  \<open>PO13\<close>. Of a \<open>PacketOut\<close> the model keeps the fields that the source sets: the
  action list, empty in a new message, and the data.
\<close>

datatype of_family = V0x01 | V0x04

record action_output =
  ao_class :: of_family
  port :: port_no

record packet_out =
  po_class :: of_family
  actions :: "action_output list"
  po_data :: bytes

text \<open>
  A \<open>KytosEvent\<close> with its name and content: the content of a probe command
  (\<open>destination\<close>, \<open>message\<close>) or of a link event (\<open>switch_a\<close>, \<open>switch_b\<close>, each
  an id and a port).
\<close>

record endpoint =
  ep_id :: string
  ep_port :: port_no

datatype content =
  PacketOutContent (destination: "connection option") (message: packet_out)
| LinkContent (switch_a: endpoint) (switch_b: endpoint)

record kytos_event =
  name :: string
  content :: content

text \<open>
  The controller: its dictionary of switches, in insertion order, and the two buffers the
  source writes to. \<open>put\<close> appends to a buffer.
\<close>

record buffers =
  msg_out :: "kytos_event list"
  app :: "kytos_event list"

record controller =
  switches :: "(dpid \<times> switch) list"
  buffers :: buffers

definition put :: "kytos_event list \<Rightarrow> kytos_event \<Rightarrow> kytos_event list" where
  "put q e = q @ [e]"

section \<open>The pyof codec\<close>

text \<open>
  Modelled from the spec: the classes \<open>Ethernet\<close>, \<open>LLDP\<close>, \<open>DPID\<close> and \<open>UBInt16\<close>
  of the pyof library and the constants \<open>EtherType.LLDP\<close> and
  \<open>constants.LLDP_MULTICAST_MAC\<close> are not part of the source file. The wire format
  follows section 6 of the spec: an Ethernet header (destination, source, ethertype)
  followed by an LLDP body of a chassis-id TLV, whose sub-value is the 8-byte datapath
  identifier, and a port-id TLV, whose sub-value is the 2-byte port number. A TLV header
  is the 16-bit big-endian word of LLDP: seven bits of type, nine bits of length. Slices
  are Python slices: they shorten silently at the end of the buffer.
\<close>

text \<open>Big-endian bytes of a word, and back (\<open>struct\<close> formats with \<open>!\<close>).\<close>

definition be_bytes :: "nat \<Rightarrow> 'a::len word \<Rightarrow> bytes" where
  "be_bytes n w = map (\<lambda>i. ucast (drop_bit (8 * i) w)) (rev [0..<n])"

definition be_word :: "bytes \<Rightarrow> 'a::len word" where
  "be_word bs = foldl (\<lambda>acc b. push_bit 8 acc OR ucast b) 0 bs"

definition EtherType_LLDP :: "16 word" where
  "EtherType_LLDP = 0x88CC"

definition LLDP_MULTICAST_MAC :: hw_address where
  "LLDP_MULTICAST_MAC = 0x0180C200000E"

text \<open>Modelled from the spec: \<open>UBInt16\<close>, two bytes, and \<open>DPID\<close>, eight bytes.\<close>

definition UBInt16_pack :: "16 word \<Rightarrow> bytes" where
  "UBInt16_pack p = be_bytes 2 p"

definition UBInt16_unpack :: "bytes \<Rightarrow> exn + 16 word" where
  "UBInt16_unpack buff =
     (if length buff < 2 then Inl UnpackException else Inr (be_word (take 2 buff)))"

definition DPID_pack :: "dpid \<Rightarrow> bytes" where
  "DPID_pack d = be_bytes 8 d"

text \<open>
  A failed unpack raises \<open>UnpackException\<close>, as the docstring of \<open>unpack_non_empty\<close>
  says; the datapath identifier, read octet by octet, raises \<open>struct.error\<close>, the
  exception the handler of \<open>notify_uplink_detected\<close> names.
\<close>

definition DPID_unpack :: "bytes \<Rightarrow> exn + dpid" where
  "DPID_unpack buff =
     (if length buff < 8 then Inl StructError else Inr (be_word (take 8 buff)))"

text \<open>
  Modelled from the spec: \<open>Ethernet\<close>, the header of destination, source and
  ethertype followed by the data (\<open>eth_destination\<close> and \<open>eth_data\<close> are the
  attributes \<open>destination\<close> and \<open>data\<close>).
\<close>

record ethernet =
  eth_destination :: hw_address
  source :: hw_address
  ether_type :: "16 word"
  eth_data :: bytes

definition Ethernet :: ethernet where
  "Ethernet = \<lparr>eth_destination = 0, source = 0, ether_type = 0, eth_data = []\<rparr>"

definition Ethernet_pack :: "ethernet \<Rightarrow> bytes" where
  "Ethernet_pack e =
     be_bytes 6 (eth_destination e) @ be_bytes 6 (source e) @ be_bytes 2 (ether_type e)
       @ eth_data e"

definition Ethernet_unpack :: "bytes \<Rightarrow> exn + ethernet" where
  "Ethernet_unpack buff =
     (if length buff < 14 then Inl UnpackException
      else Inr \<lparr>eth_destination = be_word (take 6 buff),
                source = be_word (take 6 (drop 6 buff)),
                ether_type = be_word (take 2 (drop 12 buff)),
                eth_data = drop 14 buff\<rparr>)"

text \<open>
  Modelled from the spec: a TLV with a sub-type, and \<open>LLDP\<close>, the chassis-id TLV
  (type 1) followed by the port-id TLV (type 2), both of sub-type 7 in a new object. The
  attribute \<open>sub_value\<close> holds bytes in an unpacked TLV; in a TLV that the Prober fills
  it holds the object that was stored.
\<close>

record 'v tlv =
  tlv_type :: "16 word"
  sub_type :: byte
  sub_value :: 'v

definition TLV_header :: "16 word \<Rightarrow> nat \<Rightarrow> 16 word" where
  "TLV_header ty len = push_bit 9 (ty AND 127) OR (word_of_nat len AND 511)"

text \<open>The bytes of a TLV whose sub-value is already packed.\<close>

definition TLV_bytes :: "bytes tlv \<Rightarrow> bytes" where
  "TLV_bytes t =
     be_bytes 2 (TLV_header (tlv_type t) (1 + length (sub_value t))) @ [sub_type t] @ sub_value t"

text \<open>
  What the Prober stores in \<open>sub_value\<close>: nothing yet (the empty data of a new TLV),
  the \<open>DPID\<close> object of line 42, or the port number of line 43 as the inventory holds
  it. Packing a TLV calls \<open>pack\<close> on the stored object; a plain integer has no such
  method and the call raises \<open>AttributeError\<close>.
\<close>

datatype sub_value_obj = NoData | DPID dpid | PortNumber port_value

fun sub_value_pack :: "sub_value_obj \<Rightarrow> exn + bytes" where
  "sub_value_pack NoData = Inr []"
| "sub_value_pack (DPID d) = Inr (DPID_pack d)"
| "sub_value_pack (PortNumber (UBInt16 n)) = Inr (UBInt16_pack n)"
| "sub_value_pack (PortNumber (PyInt n)) = Inl AttributeError"

definition TLV_pack :: "sub_value_obj tlv \<Rightarrow> exn + bytes" where
  "TLV_pack t =
     (case sub_value_pack (sub_value t) of
        Inl e \<Rightarrow> Inl e
      | Inr v \<Rightarrow> Inr (TLV_bytes \<lparr>tlv_type = tlv_type t, sub_type = sub_type t, sub_value = v\<rparr>))"

text \<open>The unpacked TLV and the bytes that follow it.\<close>

definition TLV_unpack :: "bytes \<Rightarrow> exn + (bytes tlv \<times> bytes)" where
  "TLV_unpack buff =
     (if length buff < 3 then Inl UnpackException
      else
        let header = (be_word (take 2 buff) :: 16 word);
            len = unat (header AND 511);
            sv = take (len - 1) (drop 3 buff)
        in Inr (\<lparr>tlv_type = drop_bit 9 header, sub_type = buff ! 2, sub_value = sv\<rparr>,
                drop (3 + length sv) buff))"

record 'v lldp =
  chassis_id :: "'v tlv"
  port_id :: "'v tlv"

definition LLDP :: "sub_value_obj lldp" where
  "LLDP = \<lparr>chassis_id = \<lparr>tlv_type = 1, sub_type = 7, sub_value = NoData\<rparr>,
            port_id = \<lparr>tlv_type = 2, sub_type = 7, sub_value = NoData\<rparr>\<rparr>"

definition LLDP_pack :: "sub_value_obj lldp \<Rightarrow> exn + bytes" where
  "LLDP_pack l =
     (case TLV_pack (chassis_id l) of
        Inl e \<Rightarrow> Inl e
      | Inr c \<Rightarrow>
          (case TLV_pack (port_id l) of
             Inl e \<Rightarrow> Inl e
           | Inr p \<Rightarrow> Inr (c @ p)))"

definition LLDP_unpack :: "bytes \<Rightarrow> exn + bytes lldp" where
  "LLDP_unpack buff =
     (case TLV_unpack buff of
        Inl e \<Rightarrow> Inl e
      | Inr (c, rest) \<Rightarrow>
          (case TLV_unpack rest of
             Inl e \<Rightarrow> Inl e
           | Inr (p, _) \<Rightarrow> Inr \<lparr>chassis_id = c, port_id = p\<rparr>))"

text \<open>
  The Correlator takes the four decoders as a parameter, so that what it does with their
  results is stated for every implementation of the library; \<open>pyof\<close> is the one above.
\<close>

record codec =
  unpack_Ethernet :: "bytes \<Rightarrow> exn + ethernet"
  unpack_LLDP :: "bytes \<Rightarrow> exn + bytes lldp"
  unpack_DPID :: "bytes \<Rightarrow> exn + dpid"
  unpack_UBInt16 :: "bytes \<Rightarrow> exn + 16 word"

definition pyof :: codec where
  "pyof = \<lparr>unpack_Ethernet = Ethernet_unpack, unpack_LLDP = LLDP_unpack,
            unpack_DPID = DPID_unpack, unpack_UBInt16 = UBInt16_unpack\<rparr>"

section \<open>The Prober\<close>

text \<open>\<open>switch.connection.protocol.version\<close>, line 28.\<close>

definition read_version :: "switch \<Rightarrow> exn + int option" where
  "read_version sw =
     (case connection sw of
        None \<Rightarrow> Inl AttributeError
      | Some c \<Rightarrow>
          (case getattr (protocol c) of
             Inl e \<Rightarrow> Inl e
           | Inr p \<Rightarrow> getattr (version p)))"

text \<open>Lines 27 to 30: an \<open>AttributeError\<close> makes the version \<open>None\<close>.\<close>

definition of_version :: "switch \<Rightarrow> exn + int option" where
  "of_version sw =
     (case read_version sw of
        Inl e \<Rightarrow> (if e = AttributeError then Inr None else Inl e)
      | Inr v \<Rightarrow> Inr v)"

text \<open>Lines 119 to 136 (the logging of line 126 has no effect on the result).\<close>

definition build_lldp_packet_out :: "int option \<Rightarrow> port_no \<Rightarrow> bytes \<Rightarrow> packet_out option" where
  "build_lldp_packet_out version' port_number' data =
     (case (if version' = Some 0x01 then Some V0x01
            else if version' = Some 0x04 then Some V0x04
            else None) of
        None \<Rightarrow> None
      | Some cls \<Rightarrow>
          let output_action = \<lparr>ao_class = cls, port = port_number'\<rparr>;
              packet_out = \<lparr>po_class = cls, actions = [], po_data = []\<rparr>;
              packet_out = packet_out\<lparr>po_data := data\<rparr>;
              packet_out = packet_out\<lparr>actions := actions packet_out @ [output_action]\<rparr>
          in Some packet_out)"

text \<open>
  Lines 41 to 43. Line 42 wraps the datapath identifier in a \<open>DPID\<close> object; line 43
  stores the port number as the interface holds it.
\<close>

definition probe_lldp :: "switch \<Rightarrow> interface \<Rightarrow> sub_value_obj lldp" where
  "probe_lldp sw iface =
     (let lldp = LLDP;
          lldp = lldp\<lparr>chassis_id := (chassis_id lldp)\<lparr>sub_value := DPID (dpid sw)\<rparr>\<rparr>;
          lldp = lldp\<lparr>port_id := (port_id lldp)\<lparr>sub_value := PortNumber (port_number iface)\<rparr>\<rparr>
      in lldp)"

text \<open>
  Lines 45 to 49 and the \<open>ethernet.pack()\<close> of line 53: the bytes of the frame, or
  the exception that \<open>lldp.pack()\<close> raises at line 49.
\<close>

definition probe_frame :: "switch \<Rightarrow> interface \<Rightarrow> exn + bytes" where
  "probe_frame sw iface =
     (let lldp = probe_lldp sw iface;
          ethernet = Ethernet;
          ethernet = ethernet\<lparr>ether_type := EtherType_LLDP\<rparr>;
          ethernet = ethernet\<lparr>source := address iface\<rparr>;
          ethernet = ethernet\<lparr>eth_destination := LLDP_MULTICAST_MAC\<rparr>
      in (case LLDP_pack lldp of
            Inl e \<Rightarrow> Inl e
          | Inr body \<Rightarrow> Inr (Ethernet_pack (ethernet\<lparr>eth_data := body\<rparr>))))"

text \<open>
  The body of the inner loop for the interfaces that the iteration yields, lines 36 to
  63, threading the \<open>msg_out\<close> buffer: the exception that left the body, if any, and
  the buffer. The builder receives the port number as the integer it holds.
\<close>

fun probe_interfaces ::
  "int option \<Rightarrow> switch \<Rightarrow> interface list \<Rightarrow> kytos_event list
     \<Rightarrow> exn option \<times> kytos_event list" where
  "probe_interfaces v sw [] q = (None, q)"
| "probe_interfaces v sw (iface # ifaces) q =
     (if port_no_of (port_number iface) = 65534 then probe_interfaces v sw ifaces q
      else
        (case probe_frame sw iface of
           Inl e \<Rightarrow> (Some e, q)
         | Inr frame \<Rightarrow>
             (case build_lldp_packet_out v (port_no_of (port_number iface)) frame of
                None \<Rightarrow> probe_interfaces v sw ifaces q
              | Some packet_out \<Rightarrow>
                  probe_interfaces v sw ifaces
                    (put q \<lparr>name = ''diraol/of_lldp.messages.out.ofpt_packet_out'',
                            content = PacketOutContent (connection sw) packet_out\<rparr>))))"

text \<open>
  The body of the outer loop for one switch, lines 27 to 63: the filter of line 32, then
  the inner loop over the interfaces that the iteration of line 35 yields, then the
  exception that ends that iteration, if any.
\<close>

definition probe_switch :: "switch \<Rightarrow> kytos_event list \<Rightarrow> exn option \<times> kytos_event list" where
  "probe_switch sw q =
     (case of_version sw of
        Inl e \<Rightarrow> (Some e, q)
      | Inr v \<Rightarrow>
          (if \<not> (is_connected sw \<and> (v = Some 0x01 \<or> v = Some 0x04)) then (None, q)
           else
             (case probe_interfaces v sw (fst (interfaces sw)) q of
                (Some e, q') \<Rightarrow> (Some e, q')
              | (None, q') \<Rightarrow>
                  (case snd (interfaces sw) of
                     Some e \<Rightarrow> (Some e, q')
                   | None \<Rightarrow> (None, q')))))"

text \<open>
  The outer loop, line 26. The result is the exception that ended the loop, if any, and
  the buffer as the loop left it.
\<close>

fun probe_switches :: "switch list \<Rightarrow> kytos_event list \<Rightarrow> exn option \<times> kytos_event list" where
  "probe_switches [] q = (None, q)"
| "probe_switches (sw # sws) q =
     (case probe_switch sw q of
        (Some e, q') \<Rightarrow> (Some e, q')
      | (None, q') \<Rightarrow> probe_switches sws q')"

text \<open>
  \<open>execute\<close> reads the switches of the controller and writes to its \<open>msg_out\<close>
  buffer only: the result is the exception that left the method, if any, and the buffers.
\<close>

definition execute :: "controller \<Rightarrow> exn option \<times> buffers" where
  "execute ctrl =
     (let (r, q) = probe_switches (map snd (switches ctrl)) (msg_out (buffers ctrl))
      in (r, (buffers ctrl)\<lparr>msg_out := q\<rparr>))"

section \<open>The Correlator\<close>

text \<open>
  The event of a packet-in: \<open>event.source.switch\<close>, \<open>event.message.in_port\<close> and
  \<open>event.message.data\<close>.
\<close>

record packet_in =
  in_port :: port_no
  pi_data :: pydata

record packet_in_event =
  source_switch :: switch
  ev_message :: packet_in

text \<open>
  Lines 153 to 160: \<open>desired_class\<close> is given by its \<open>unpack\<close>, which returns the
  unpacked object or raises.
\<close>

definition unpack_non_empty :: "(bytes \<Rightarrow> exn + 'a) \<Rightarrow> pydata \<Rightarrow> exn + 'a" where
  "unpack_non_empty desired_class data =
     desired_class (case data of BinaryData v \<Rightarrow> v | RawBytes b \<Rightarrow> b)"

text \<open>
  Modelled from the spec: \<open>controller.get_switch_by_dpid\<close> is not part of the source
  file; it looks the datapath identifier up in the inventory and yields \<open>None\<close> when
  there is no match.
\<close>

definition get_switch_by_dpid :: "controller \<Rightarrow> dpid \<Rightarrow> switch option" where
  "get_switch_by_dpid ctrl d = map_of (switches ctrl) d"

text \<open>Lines 92 to 96: the link event.\<close>

definition link_event :: "switch \<Rightarrow> port_no \<Rightarrow> switch \<Rightarrow> port_no \<Rightarrow> kytos_event" where
  "link_event sa pa sb pb =
     \<lparr>name = ''diraol/of_lldp.switch.link'',
      content = LinkContent \<lparr>ep_id = ident sa, ep_port = pa\<rparr> \<lparr>ep_id = ident sb, ep_port = pb\<rparr>\<rparr>"

text \<open>
  Lines 74 to 97. Only \<open>struct.error\<close> is caught, and only around the unpacking of
  the LLDP body and of the chassis id; reading \<open>switch_b.id\<close> on the \<open>None\<close> of a
  lookup miss raises \<open>AttributeError\<close>.
\<close>

definition notify_uplink_detected ::
  "codec \<Rightarrow> controller \<Rightarrow> packet_in_event \<Rightarrow> exn option \<times> buffers" where
  "notify_uplink_detected lib ctrl event =
     (case unpack_non_empty (unpack_Ethernet lib) (pi_data (ev_message event)) of
        Inl e \<Rightarrow> (Some e, buffers ctrl)
      | Inr ethernet \<Rightarrow>
          if ether_type ethernet = EtherType_LLDP then
            (case (case unpack_non_empty (unpack_LLDP lib) (BinaryData (eth_data ethernet)) of
                     Inl e \<Rightarrow> Inl e
                   | Inr lldp \<Rightarrow>
                       (case unpack_non_empty (unpack_DPID lib)
                               (BinaryData (sub_value (chassis_id lldp))) of
                          Inl e \<Rightarrow> Inl e
                        | Inr d \<Rightarrow> Inr (lldp, d))) of
               Inl e \<Rightarrow> (if e = StructError then (None, buffers ctrl) else (Some e, buffers ctrl))
             | Inr (lldp, d) \<Rightarrow>
                 let switch_a' = source_switch event;
                     port_a = in_port (ev_message event);
                     switch_b' = get_switch_by_dpid ctrl d
                 in (case unpack_non_empty (unpack_UBInt16 lib)
                            (BinaryData (sub_value (port_id lldp))) of
                       Inl e \<Rightarrow> (Some e, buffers ctrl)
                     | Inr port_b \<Rightarrow>
                         (case switch_b' of
                            None \<Rightarrow> (Some AttributeError, buffers ctrl)
                          | Some sb \<Rightarrow>
                              (None, (buffers ctrl)
                                 \<lparr>app := put (app (buffers ctrl))
                                           (link_event switch_a' port_a sb port_b)\<rparr>))))
          else (None, buffers ctrl))"

section \<open>What a tick publishes\<close>

text \<open>The commands that a tick adds to the \<open>msg_out\<close> buffer.\<close>

definition published :: "controller \<Rightarrow> kytos_event list" where
  "published ctrl = drop (length (msg_out (buffers ctrl))) (msg_out (snd (execute ctrl)))"

text \<open>A switch without its interfaces of port number 65534.\<close>

definition without_reserved :: "switch \<Rightarrow> switch" where
  "without_reserved sw =
     sw\<lparr>interfaces :=
          (filter (\<lambda>i. port_no_of (port_number i) \<noteq> 65534) (fst (interfaces sw)),
           snd (interfaces sw))\<rparr>"

text \<open>The ports that the output actions of a published command target.\<close>

definition output_ports :: "kytos_event \<Rightarrow> port_no list" where
  "output_ports ev =
     (case content ev of
        PacketOutContent c po \<Rightarrow> map port (actions po)
      | LinkContent a b \<Rightarrow> [])"

text \<open>A published command with an output action to the reserved port 65534.\<close>

definition targets_reserved :: "kytos_event \<Rightarrow> bool" where
  "targets_reserved ev =
     (case content ev of
        PacketOutContent c po \<Rightarrow> list_ex (\<lambda>a. port a = 65534) (actions po)
      | LinkContent a b \<Rightarrow> False)"

section \<open>The scenarios of the spec\<close>

definition conn :: "nat \<Rightarrow> int \<Rightarrow> connection" where
  "conn n v = \<lparr>conn_id = n, protocol = Has \<lparr>version = Has (Some v)\<rparr>\<rparr>"

text \<open>
  Switch A of scenario 1 (datapath identifier 0x1, version 0x04, port 3) holds its port
  number as a plain integer. Switch B (datapath identifier 0x2, version 0x01) has the
  local port 65534, held as a plain integer, and port 7, held as a \<open>UBInt16\<close> object.
  Switch C (datapath identifier 0x3, version 0x04, port 5) and \<open>port_A5\<close>, a further
  port for switch A, hold their port numbers as \<open>UBInt16\<close> objects.
\<close>

definition port_A3 :: interface where
  "port_A3 = \<lparr>port_number = PyInt 3, address = 0xAABBCCDDEE01\<rparr>"


definition port_B_local :: interface where
  "port_B_local = \<lparr>port_number = PyInt 65534, address = 0xAABBCCDDEE00\<rparr>"

definition port_B7 :: interface where
  "port_B7 = \<lparr>port_number = UBInt16 7, address = 0xAABBCCDDEE02\<rparr>"

definition port_C5 :: interface where
  "port_C5 = \<lparr>port_number = UBInt16 5, address = 0xAABBCCDDEE03\<rparr>"

definition switch_A :: switch where
  "switch_A = \<lparr>ident = ''00:00:00:00:00:00:00:01'', dpid = 0x1, connection = Some (conn 1 0x04),
               is_connected = True, interfaces = ([port_A3], None)\<rparr>"

definition switch_B :: switch where
  "switch_B = \<lparr>ident = ''00:00:00:00:00:00:00:02'', dpid = 0x2, connection = Some (conn 2 0x01),
               is_connected = True, interfaces = ([port_B_local, port_B7], None)\<rparr>"

definition switch_C :: switch where
  "switch_C = \<lparr>ident = ''00:00:00:00:00:00:00:03'', dpid = 0x3, connection = Some (conn 3 0x04),
               is_connected = True, interfaces = ([port_C5], None)\<rparr>"

definition no_buffers :: buffers where
  "no_buffers = \<lparr>msg_out = [], app = []\<rparr>"

definition inventory :: "switch list \<Rightarrow> controller" where
  "inventory sws = \<lparr>switches = map (\<lambda>sw. (dpid sw, sw)) sws, buffers = no_buffers\<rparr>"

text \<open>
  Modelled from the spec: the probe frame of section 6 of the spec on the wire, for a
  datapath identifier, a port number and the hardware address of the probing interface.
\<close>

definition probe_wire_lldp :: "dpid \<Rightarrow> port_no \<Rightarrow> bytes lldp" where
  "probe_wire_lldp d p =
     \<lparr>chassis_id = \<lparr>tlv_type = 1, sub_type = 7, sub_value = DPID_pack d\<rparr>,
      port_id = \<lparr>tlv_type = 2, sub_type = 7, sub_value = UBInt16_pack p\<rparr>\<rparr>"

definition probe_wire_ethernet :: "dpid \<Rightarrow> port_no \<Rightarrow> hw_address \<Rightarrow> ethernet" where
  "probe_wire_ethernet d p mac =
     \<lparr>eth_destination = LLDP_MULTICAST_MAC, source = mac, ether_type = EtherType_LLDP,
      eth_data = TLV_bytes (chassis_id (probe_wire_lldp d p))
                   @ TLV_bytes (port_id (probe_wire_lldp d p))\<rparr>"

definition probe_wire :: "dpid \<Rightarrow> port_no \<Rightarrow> hw_address \<Rightarrow> bytes" where
  "probe_wire d p mac = Ethernet_pack (probe_wire_ethernet d p mac)"

text \<open>
  The frame that scenario 1 describes for port 3 of switch A, the frame that the tick
  sends out of port 7 of switch B, and the arrival of a frame at a port of a switch.
\<close>

definition frame_A3 :: bytes where
  "frame_A3 = probe_wire 0x1 3 0xAABBCCDDEE01"

definition frame_B7 :: bytes where
  "frame_B7 = probe_wire 0x2 7 0xAABBCCDDEE02"

definition packet_in_at :: "switch \<Rightarrow> port_no \<Rightarrow> bytes \<Rightarrow> packet_in_event" where
  "packet_in_at sw p frame = \<lparr>source_switch = sw, ev_message = \<lparr>in_port = p, pi_data = BinaryData frame\<rparr>\<rparr>"

text \<open>A frame with another ethertype (IPv4), and LLDP frames of other agents.\<close>

definition frame_with :: "16 word \<Rightarrow> bytes \<Rightarrow> bytes" where
  "frame_with ty payload =
     Ethernet_pack \<lparr>eth_destination = LLDP_MULTICAST_MAC, source = 0xAABBCCDDEE09,
                    ether_type = ty, eth_data = payload\<rparr>"

section \<open>Lemmas on the loops of the Prober\<close>

lemma getattr_raises: "getattr a = Inl e \<Longrightarrow> e = AttributeError"
  by (cases a) simp_all

lemma read_version_raises: "read_version sw = Inl e \<Longrightarrow> e = AttributeError"
  by (auto simp: read_version_def split: option.splits sum.splits dest: getattr_raises)

lemma of_version_returns: "\<exists>v. of_version sw = Inr v"
  by (auto simp: of_version_def split: sum.splits dest: read_version_raises)

lemma probe_switch_eq:
  "probe_switch sw q =
     (case of_version sw of
        Inl e \<Rightarrow> (Some e, q)
      | Inr v \<Rightarrow>
          if \<not> (is_connected sw \<and> (v = Some 1 \<or> v = Some 4)) then (None, q)
          else (case fst (probe_interfaces v sw (fst (interfaces sw)) q) of
                  Some e \<Rightarrow> Some e
                | None \<Rightarrow> snd (interfaces sw),
                snd (probe_interfaces v sw (fst (interfaces sw)) q)))"
  by (auto simp: probe_switch_def split: sum.splits prod.splits option.splits)

lemma probe_switches_Cons:
  "probe_switches (sw # sws) q =
     (case fst (probe_switch sw q) of
        Some e \<Rightarrow> (Some e, snd (probe_switch sw q))
      | None \<Rightarrow> probe_switches sws (snd (probe_switch sw q)))"
  by (auto split: prod.splits option.splits)

lemma probe_switches_append:
  "probe_switches (xs @ ys) q =
     (case probe_switches xs q of
        (None, q') \<Rightarrow> probe_switches ys q'
      | (Some e, q') \<Rightarrow> (Some e, q'))"
  by (induction xs arbitrary: q) (auto split: option.splits prod.splits)


lemma probe_switch_skip:
  assumes "\<not> is_connected sw \<or> of_version sw \<notin> {Inr (Some 1), Inr (Some 4)}"
  shows "probe_switch sw q = (None, q)"
  using assms of_version_returns [of sw] by (auto simp: probe_switch_def)

lemma probe_switches_skip_mid:
  assumes "\<not> is_connected sw \<or> of_version sw \<notin> {Inr (Some 1), Inr (Some 4)}"
  shows "probe_switches (pre @ sw # post) q = probe_switches (pre @ post) q"
  using probe_switch_skip [OF assms]
  by (simp add: probe_switches_append [of pre] split: prod.splits option.splits)

lemma execute_skip_mid:
  assumes "\<not> is_connected sw \<or> of_version sw \<notin> {Inr (Some 1), Inr (Some 4)}"
  shows "execute (ctrl\<lparr>switches := pre @ (k, sw) # post\<rparr>)
           = execute (ctrl\<lparr>switches := pre @ post\<rparr>)"
  using probe_switches_skip_mid [OF assms, of "map snd pre" "map snd post"]
  by (simp add: execute_def)

section \<open>The codec: packing and unpacking\<close>

lemma be_bytes_Suc: "be_bytes (Suc n) w = ucast (drop_bit (8 * n) w) # be_bytes n w"
  by (simp add: be_bytes_def)

lemma length_be_bytes [simp]: "length (be_bytes n w) = n"
  by (simp add: be_bytes_def)

lemma be_step_bits:
  "push_bit (8 * n) (push_bit 8 acc OR ucast (ucast (drop_bit (8 * n) w) :: byte)) OR take_bit (8 * n) w
     = push_bit (8 * Suc n) acc OR take_bit (8 * Suc n) (w :: 'a::len word)"
  by (rule bit_eqI) (auto simp: bit_simps ac_simps)

lemma foldl_be_bytes:
  "foldl (\<lambda>acc b. push_bit 8 acc OR ucast b) (acc::'a::len word) (be_bytes n (w::'a word))
     = push_bit (8 * n) acc OR take_bit (8 * n) w"
proof (induction n arbitrary: acc)
  case 0
  show ?case by (simp add: be_bytes_def)
next
  case (Suc n)
  show ?case
    unfolding be_bytes_Suc foldl_Cons Suc.IH be_step_bits ..
qed

lemma be_word_be_bytes:
  assumes "LENGTH('a::len) \<le> 8 * n"
  shows "be_word (be_bytes n (w :: 'a word)) = w"
proof -
  have "be_word (be_bytes n w) = take_bit (8 * n) w"
    by (simp add: be_word_def foldl_be_bytes)
  also have "\<dots> = w"
    using assms by (simp add: take_bit_word_eq_self)
  finally show ?thesis .
qed

lemma UBInt16_roundtrip: "UBInt16_unpack (UBInt16_pack p) = Inr p"
  by (simp add: UBInt16_unpack_def UBInt16_pack_def be_word_be_bytes)

lemma DPID_roundtrip: "DPID_unpack (DPID_pack d) = Inr d"
  by (simp add: DPID_unpack_def DPID_pack_def be_word_be_bytes)

lemma Ethernet_roundtrip: "Ethernet_unpack (Ethernet_pack e) = Inr e"
  by (simp add: Ethernet_unpack_def Ethernet_pack_def be_word_be_bytes)

lemma TLV_roundtrip_chassis:
  "TLV_unpack (TLV_bytes \<lparr>tlv_type = 1, sub_type = 7, sub_value = be_bytes 8 d\<rparr> @ rest)
     = Inr (\<lparr>tlv_type = 1, sub_type = 7, sub_value = be_bytes 8 d\<rparr>, rest)"
  by (simp add: TLV_unpack_def TLV_bytes_def TLV_header_def be_word_be_bytes nth_append)

lemma TLV_roundtrip_port:
  "TLV_unpack (TLV_bytes \<lparr>tlv_type = 2, sub_type = 7, sub_value = be_bytes 2 p\<rparr> @ rest)
     = Inr (\<lparr>tlv_type = 2, sub_type = 7, sub_value = be_bytes 2 p\<rparr>, rest)"
  by (simp add: TLV_unpack_def TLV_bytes_def TLV_header_def be_word_be_bytes nth_append)

lemma LLDP_roundtrip_wire:
  "LLDP_unpack (TLV_bytes (chassis_id (probe_wire_lldp d p)) @ TLV_bytes (port_id (probe_wire_lldp d p)))
     = Inr (probe_wire_lldp d p)"
  using TLV_roundtrip_port [of p "[]"]
  by (simp add: probe_wire_lldp_def LLDP_unpack_def DPID_pack_def UBInt16_pack_def
      TLV_roundtrip_chassis)

section \<open>The frame that the Prober builds\<close>

text \<open>
  With the port number held as a \<open>UBInt16\<close> object, lines 41 to 53 give the probe
  frame of the spec; with the port number held as a plain integer, \<open>lldp.pack()\<close> of
  line 49 raises.
\<close>

lemma probe_frame_packed:
  "port_number iface = UBInt16 p
     \<Longrightarrow> probe_frame sw iface = Inr (probe_wire (dpid sw) p (address iface))"
  by (simp add: probe_frame_def probe_lldp_def LLDP_def LLDP_pack_def TLV_pack_def Ethernet_def
      probe_wire_def probe_wire_ethernet_def probe_wire_lldp_def)

lemma probe_frame_plain:
  "port_number iface = PyInt n \<Longrightarrow> probe_frame sw iface = Inl AttributeError"
  by (simp add: probe_frame_def probe_lldp_def LLDP_def LLDP_pack_def TLV_pack_def)

section \<open>The decode pipeline of the Correlator\<close>

lemma probe_wire_decodes:
  "unpack_non_empty (unpack_Ethernet pyof) (BinaryData (probe_wire d p mac))
     = Inr (probe_wire_ethernet d p mac)"
  "ether_type (probe_wire_ethernet d p mac) = EtherType_LLDP"
  "unpack_non_empty (unpack_LLDP pyof) (BinaryData (eth_data (probe_wire_ethernet d p mac)))
     = Inr (probe_wire_lldp d p)"
  "unpack_non_empty (unpack_DPID pyof) (BinaryData (sub_value (chassis_id (probe_wire_lldp d p))))
     = Inr d"
  "unpack_non_empty (unpack_UBInt16 pyof) (BinaryData (sub_value (port_id (probe_wire_lldp d p))))
     = Inr p"
proof -
  show "unpack_non_empty (unpack_Ethernet pyof) (BinaryData (probe_wire d p mac))
     = Inr (probe_wire_ethernet d p mac)"
    by (simp add: unpack_non_empty_def pyof_def probe_wire_def Ethernet_roundtrip)
  show "ether_type (probe_wire_ethernet d p mac) = EtherType_LLDP"
    by (simp add: probe_wire_ethernet_def)
  show "unpack_non_empty (unpack_LLDP pyof) (BinaryData (eth_data (probe_wire_ethernet d p mac)))
     = Inr (probe_wire_lldp d p)"
    by (simp add: unpack_non_empty_def pyof_def probe_wire_ethernet_def LLDP_roundtrip_wire)
  show "unpack_non_empty (unpack_DPID pyof)
          (BinaryData (sub_value (chassis_id (probe_wire_lldp d p)))) = Inr d"
    by (simp add: unpack_non_empty_def pyof_def probe_wire_lldp_def DPID_roundtrip)
  show "unpack_non_empty (unpack_UBInt16 pyof)
          (BinaryData (sub_value (port_id (probe_wire_lldp d p)))) = Inr p"
    by (simp add: unpack_non_empty_def pyof_def probe_wire_lldp_def UBInt16_roundtrip)
qed

lemma notify_decoded:
  assumes "unpack_non_empty (unpack_Ethernet lib) (pi_data (ev_message event)) = Inr eth"
    and "ether_type eth = EtherType_LLDP"
    and "unpack_non_empty (unpack_LLDP lib) (BinaryData (eth_data eth)) = Inr l"
    and "unpack_non_empty (unpack_DPID lib) (BinaryData (sub_value (chassis_id l))) = Inr d"
    and "unpack_non_empty (unpack_UBInt16 lib) (BinaryData (sub_value (port_id l))) = Inr p"
  shows "notify_uplink_detected lib ctrl event =
     (case get_switch_by_dpid ctrl d of
        None \<Rightarrow> (Some AttributeError, buffers ctrl)
      | Some sb \<Rightarrow>
          (None, (buffers ctrl)\<lparr>app := app (buffers ctrl)
                  @ [link_event (source_switch event) (in_port (ev_message event)) sb p]\<rparr>))"
  using assms by (simp add: notify_uplink_detected_def put_def split: option.splits)

lemma packet_in_at_data:
  "pi_data (ev_message (packet_in_at sw p frame)) = BinaryData frame"
  "source_switch (packet_in_at sw p frame) = sw"
  "in_port (ev_message (packet_in_at sw p frame)) = p"
  by (simp_all add: packet_in_at_def)

lemma notify_probe_wire:
  "notify_uplink_detected pyof ctrl (packet_in_at sa pa (probe_wire d p mac)) =
     (case get_switch_by_dpid ctrl d of
        None \<Rightarrow> (Some AttributeError, buffers ctrl)
      | Some sb \<Rightarrow>
          (None, (buffers ctrl)\<lparr>app := app (buffers ctrl) @ [link_event sa pa sb p]\<rparr>))"
proof -
  have "unpack_non_empty (unpack_Ethernet pyof)
          (pi_data (ev_message (packet_in_at sa pa (probe_wire d p mac))))
        = Inr (probe_wire_ethernet d p mac)"
    by (simp add: packet_in_at_data probe_wire_decodes(1))
  from notify_decoded [OF this probe_wire_decodes(2-5), of ctrl]
  show ?thesis by (simp add: packet_in_at_data split: option.splits)
qed

lemma notify_handler:
  assumes "unpack_non_empty (unpack_Ethernet lib) (pi_data (ev_message event)) = Inr eth"
    and "ether_type eth = EtherType_LLDP"
    and "unpack_non_empty (unpack_LLDP lib) (BinaryData (eth_data eth)) = Inl e
       \<or> (\<exists>l. unpack_non_empty (unpack_LLDP lib) (BinaryData (eth_data eth)) = Inr l
             \<and> unpack_non_empty (unpack_DPID lib) (BinaryData (sub_value (chassis_id l))) = Inl e)"
  shows "notify_uplink_detected lib ctrl event =
           (if e = StructError then None else Some e, buffers ctrl)"
  using assms by (auto simp: notify_uplink_detected_def)

lemma frame_with_decodes:
  "unpack_non_empty (unpack_Ethernet pyof) (pi_data (ev_message (packet_in_at sw p (frame_with ty payload))))
   = Inr \<lparr>eth_destination = LLDP_MULTICAST_MAC, source = 0xAABBCCDDEE09,
          ether_type = ty, eth_data = payload\<rparr>"
  by (simp add: packet_in_at_def frame_with_def unpack_non_empty_def pyof_def Ethernet_roundtrip)

section \<open>The scenarios, evaluated\<close>

lemma of_version_scenarios:
  "of_version switch_A = Inr (Some 4)" "of_version switch_B = Inr (Some 1)"
  "of_version switch_C = Inr (Some 4)"
  by (simp_all add: of_version_def read_version_def switch_A_def switch_B_def switch_C_def conn_def)

lemma probe_switch_B:
  "probe_switch switch_B q =
     (None, q @ [\<lparr>name = ''diraol/of_lldp.messages.out.ofpt_packet_out'',
                  content = PacketOutContent (Some (conn 2 0x01))
                    \<lparr>po_class = V0x01, actions = [\<lparr>ao_class = V0x01, port = 7\<rparr>],
                     po_data = frame_B7\<rparr>\<rparr>])"
proof -
  have f: "probe_frame switch_B port_B7 = Inr frame_B7"
    using probe_frame_packed [of port_B7 7 switch_B]
    by (simp add: port_B7_def switch_B_def frame_B7_def)
  have i: "is_connected switch_B" "interfaces switch_B = ([port_B_local, port_B7], None)"
    "connection switch_B = Some (conn 2 0x01)"
    "port_number port_B_local = PyInt 65534" "port_number port_B7 = UBInt16 7"
    by (simp_all add: switch_B_def port_B_local_def port_B7_def)
  show ?thesis
    by (simp add: probe_switch_def of_version_scenarios i f build_lldp_packet_out_def put_def)
qed

lemma probe_switch_A: "probe_switch switch_A q = (Some AttributeError, q)"
proof -
  have f: "probe_frame switch_A port_A3 = Inl AttributeError"
    by (rule probe_frame_plain [of port_A3 3]) (simp add: port_A3_def)
  have i: "is_connected switch_A" "interfaces switch_A = ([port_A3], None)"
    "port_number port_A3 = PyInt 3"
    by (simp_all add: switch_A_def port_A3_def)
  show ?thesis
    by (simp add: probe_switch_def of_version_scenarios i f)
qed

lemma inventory_simps:
  "switches (inventory sws) = map (\<lambda>sw. (dpid sw, sw)) sws"
  "buffers (inventory sws) = no_buffers"
  "msg_out no_buffers = []" "app no_buffers = []"
  by (simp_all add: inventory_def no_buffers_def)

section \<open>The eligibility filter of the Prober\<close>

text \<open>
  C2. A switch that is not connected, or whose negotiated version is neither 0x01 nor
  0x04, gets no probe command in a tick, whatever its interface collection is (also one
  whose iteration would raise), and raises nothing: a tick over that switch alone
  returns normally with the buffers unchanged, and a tick over a snapshot that holds the
  switch anywhere does exactly what the tick over the snapshot without it does.
\<close>

theorem execute_skips_ineligible_switch:
  assumes "\<not> is_connected sw \<or> of_version sw \<notin> {Inr (Some 0x01), Inr (Some 0x04)}"
  shows "execute (ctrl\<lparr>switches := [(k, sw)]\<rparr>) = (None, buffers ctrl)
       \<and> execute (ctrl\<lparr>switches := pre @ (k, sw) # post\<rparr>)
           = execute (ctrl\<lparr>switches := pre @ post\<rparr>)"
  using execute_skip_mid [OF assms, where ctrl = ctrl and pre = "[]" and k = k and post = "[]"]
    execute_skip_mid [OF assms, where ctrl = ctrl and pre = pre and k = k and post = post]
  by (simp add: execute_def)

text \<open>Switch A of the spec's scenario, disconnected, after switch B in the snapshot.\<close>

theorem execute_skips_ineligible_switch_witness:
  "\<not> is_connected (switch_A\<lparr>is_connected := False\<rparr>)
   \<and> execute (inventory [switch_A\<lparr>is_connected := False\<rparr>]) = (None, no_buffers)
   \<and> execute (inventory [switch_B, switch_A\<lparr>is_connected := False\<rparr>])
       = execute (inventory [switch_B])"
  using execute_skips_ineligible_switch [where sw = "switch_A\<lparr>is_connected := False\<rparr>"
      and ctrl = "inventory []" and k = 1 and pre = "[(2, switch_B)]" and post = "[]"]
  by (simp add: inventory_def switch_A_def switch_B_def)

text \<open>
  C9. When the connection of a switch lacks the protocol attribute, or its protocol lacks
  the version attribute, the negotiated version is \<open>None\<close>; the switch gets no probe
  command and no exception leaves the tick.
\<close>

theorem execute_skips_switch_without_version:
  assumes "connection sw = Some c"
    and "protocol c = Missing \<or> (\<exists>p. protocol c = Has p \<and> version p = Missing)"
  shows "of_version sw = Inr None
       \<and> execute (ctrl\<lparr>switches := [(k, sw)]\<rparr>) = (None, buffers ctrl)
       \<and> execute (ctrl\<lparr>switches := pre @ (k, sw) # post\<rparr>)
           = execute (ctrl\<lparr>switches := pre @ post\<rparr>)"
proof -
  have v: "of_version sw = Inr None"
    using assms by (auto simp: of_version_def read_version_def)
  then have "\<not> is_connected sw \<or> of_version sw \<notin> {Inr (Some 1), Inr (Some 4)}"
    by simp
  from execute_skip_mid [OF this, where ctrl = ctrl and pre = "[]" and k = k and post = "[]"]
    execute_skip_mid [OF this, where ctrl = ctrl and pre = pre and k = k and post = post] v
  show ?thesis by (simp add: execute_def)
qed

text \<open>Switch A with a connection that has no protocol attribute, before switch B.\<close>

theorem execute_skips_switch_without_version_witness:
  "connection (switch_A\<lparr>connection := Some \<lparr>conn_id = 1, protocol = Missing\<rparr>\<rparr>)
     = Some \<lparr>conn_id = 1, protocol = Missing\<rparr>
   \<and> (protocol \<lparr>conn_id = 1, protocol = Missing\<rparr> = Missing
        \<or> (\<exists>p. protocol \<lparr>conn_id = 1, protocol = Missing\<rparr> = Has p \<and> version p = Missing))
   \<and> of_version (switch_A\<lparr>connection := Some \<lparr>conn_id = 1, protocol = Missing\<rparr>\<rparr>) = Inr None
   \<and> execute (inventory [switch_A\<lparr>connection := Some \<lparr>conn_id = 1, protocol = Missing\<rparr>\<rparr>])
       = (None, no_buffers)
   \<and> execute (inventory [switch_A\<lparr>connection := Some \<lparr>conn_id = 1, protocol = Missing\<rparr>\<rparr>, switch_B])
       = execute (inventory [switch_B])"
  using execute_skips_switch_without_version
    [where sw = "switch_A\<lparr>connection := Some \<lparr>conn_id = 1, protocol = Missing\<rparr>\<rparr>"
       and c = "\<lparr>conn_id = 1, protocol = Missing\<rparr>"
       and ctrl = "inventory []" and k = 1 and pre = "[]" and post = "[(2, switch_B)]"]
  by (simp add: inventory_def switch_A_def switch_B_def)

section \<open>The reserved port\<close>

lemma probe_interfaces_put:
  "probe_interfaces v sw ifaces q =
     (fst (probe_interfaces v sw ifaces []), q @ snd (probe_interfaces v sw ifaces []))"
proof (induction ifaces arbitrary: q)
  case Nil
  show ?case by simp
next
  case (Cons i ifaces)
  show ?case
    using Cons.IH [of q] Cons.IH [of "put q x" for x] Cons.IH [of "put [] x" for x]
    by (simp add: put_def split: option.splits sum.splits)
qed

lemma probe_interfaces_filter:
  "probe_interfaces v sw (filter (\<lambda>i. port_no_of (port_number i) \<noteq> 65534) ifaces) q
     = probe_interfaces v sw ifaces q"
  by (induction ifaces arbitrary: q) (simp_all split: option.splits sum.splits)

lemma probe_frame_without_reserved: "probe_frame (without_reserved sw) i = probe_frame sw i"
  by (simp add: probe_frame_def probe_lldp_def without_reserved_def)

lemma probe_interfaces_without_reserved:
  "probe_interfaces v (without_reserved sw) ifaces q = probe_interfaces v sw ifaces q"
  by (induction ifaces arbitrary: q)
     (simp_all add: probe_frame_without_reserved split: option.splits sum.splits,
      simp_all add: without_reserved_def)

lemma of_version_without_reserved: "of_version (without_reserved sw) = of_version sw"
  by (simp add: of_version_def read_version_def without_reserved_def)

lemma probe_switch_without_reserved: "probe_switch (without_reserved sw) q = probe_switch sw q"
proof -
  have c: "is_connected (without_reserved sw) = is_connected sw"
    by (simp add: without_reserved_def)
  have i: "fst (interfaces (without_reserved sw))
             = filter (\<lambda>i. port_no_of (port_number i) \<noteq> 65534) (fst (interfaces sw))"
    "snd (interfaces (without_reserved sw)) = snd (interfaces sw)"
    by (simp_all add: without_reserved_def)
  show ?thesis
    unfolding probe_switch_eq [of "without_reserved sw"] probe_switch_eq [of sw]
    by (simp add: of_version_without_reserved c i probe_interfaces_without_reserved
        probe_interfaces_filter split: sum.splits option.splits)
qed

lemma probe_switches_without_reserved:
  "probe_switches (map without_reserved sws) q = probe_switches sws q"
  by (induction sws arbitrary: q)
     (simp_all add: probe_switch_without_reserved split: prod.splits option.splits)

lemma build_lldp_packet_out_port:
  "build_lldp_packet_out v p d = Some po \<Longrightarrow> map port (actions po) = [p]"
  by (auto simp: build_lldp_packet_out_def Let_def split: if_splits)

lemma probe_interfaces_no_reserved:
  "\<forall>ev \<in> set q. \<not> targets_reserved ev
     \<Longrightarrow> \<forall>ev \<in> set (snd (probe_interfaces v sw ifaces q)). \<not> targets_reserved ev"
proof (induction ifaces arbitrary: q)
  case Nil
  then show ?case by simp
next
  case (Cons i ifaces)
  show ?case
  proof (cases "port_no_of (port_number i) = 65534")
    case True
    then show ?thesis using Cons by simp
  next
    case False
    show ?thesis
    proof (cases "probe_frame sw i")
      case (Inl e)
      then show ?thesis using False Cons.prems by simp
    next
      case (Inr frame)
      show ?thesis
      proof (cases "build_lldp_packet_out v (port_no_of (port_number i)) frame")
        case None
        then show ?thesis using False Inr Cons by simp
      next
        case (Some po)
        from build_lldp_packet_out_port [OF Some] False
        have "\<not> list_ex (\<lambda>a. port a = 65534) (actions po)"
          by (auto simp: list_ex_iff)
        then have "\<forall>ev \<in> set (put q \<lparr>name = ''diraol/of_lldp.messages.out.ofpt_packet_out'',
                         content = PacketOutContent (connection sw) po\<rparr>). \<not> targets_reserved ev"
          using Cons.prems by (auto simp: put_def targets_reserved_def)
        from Cons.IH [OF this] show ?thesis using False Inr Some by simp
      qed
    qed
  qed
qed

lemma probe_switch_no_reserved:
  assumes "\<forall>ev \<in> set q. \<not> targets_reserved ev"
  shows "\<forall>ev \<in> set (snd (probe_switch sw q)). \<not> targets_reserved ev"
proof -
  have "snd (probe_switch sw q) = q
      \<or> (\<exists>v. snd (probe_switch sw q) = snd (probe_interfaces v sw (fst (interfaces sw)) q))"
    unfolding probe_switch_eq by (auto split: sum.splits)
  then show ?thesis
    using assms probe_interfaces_no_reserved [OF assms] by auto
qed

lemma probe_switches_no_reserved:
  "\<forall>ev \<in> set q. \<not> targets_reserved ev
     \<Longrightarrow> \<forall>ev \<in> set (snd (probe_switches sws q)). \<not> targets_reserved ev"
proof (induction sws arbitrary: q)
  case Nil
  then show ?case by simp
next
  case (Cons sw sws)
  have "\<forall>ev \<in> set (snd (probe_switch sw q)). \<not> targets_reserved ev"
    by (rule probe_switch_no_reserved [OF Cons.prems])
  from this Cons.IH [OF this] show ?case
    unfolding probe_switches_Cons by (simp split: option.splits)
qed

lemma probe_switch_put:
  "probe_switch sw q = (fst (probe_switch sw []), q @ snd (probe_switch sw []))"
proof -
  have "fst (probe_interfaces v sw ifaces q) = fst (probe_interfaces v sw ifaces [])"
    "snd (probe_interfaces v sw ifaces q) = q @ snd (probe_interfaces v sw ifaces [])"
    for v ifaces
    using probe_interfaces_put [of v sw ifaces q] by simp_all
  then show ?thesis
    unfolding probe_switch_eq [of sw q] probe_switch_eq [of sw "[]"]
    by (simp split: sum.splits)
qed

lemma probe_switches_put:
  "probe_switches sws q = (fst (probe_switches sws []), q @ snd (probe_switches sws []))"
proof (induction sws arbitrary: q)
  case Nil
  show ?case by simp
next
  case (Cons sw sws)
  have s: "fst (probe_switch sw q) = fst (probe_switch sw [])"
    "snd (probe_switch sw q) = q @ snd (probe_switch sw [])"
    using probe_switch_put [of sw q] by simp_all
  show ?case
    unfolding probe_switches_Cons s
    using Cons.IH [of "q @ snd (probe_switch sw [])"] Cons.IH [of "snd (probe_switch sw [])"]
    by (simp add: prod_eq_iff split: option.splits)
qed

lemma published_eq: "published ctrl = snd (probe_switches (map snd (switches ctrl)) [])"
  using probe_switches_put [of "map snd (switches ctrl)" "msg_out (buffers ctrl)"]
  by (cases "probe_switches (map snd (switches ctrl)) (msg_out (buffers ctrl))")
     (simp add: published_def execute_def)

text \<open>
  C3. Interfaces with port number 65534 are never probed, whatever the state of their
  switch: a tick over the snapshot is the tick over the snapshot with those interfaces
  removed from every switch, and no command that a tick publishes has an output action
  to port 65534.
\<close>

theorem execute_never_probes_reserved_port:
  "execute (ctrl\<lparr>switches := map (\<lambda>(k, sw). (k, without_reserved sw)) (switches ctrl)\<rparr>) = execute ctrl
   \<and> filter targets_reserved (published ctrl) = []"
proof -
  have "map snd (map (\<lambda>(k, sw). (k, without_reserved sw)) (switches ctrl))
          = map without_reserved (map snd (switches ctrl))"
    by (simp add: case_prod_unfold comp_def)
  then have "probe_switches (map snd (map (\<lambda>(k, sw). (k, without_reserved sw)) (switches ctrl))) q
          = probe_switches (map snd (switches ctrl)) q" for q
    by (simp only: probe_switches_without_reserved)
  then have "execute (ctrl\<lparr>switches := map (\<lambda>(k, sw). (k, without_reserved sw)) (switches ctrl)\<rparr>) = execute ctrl"
    by (simp add: execute_def)
  moreover have "\<forall>ev \<in> set (published ctrl). \<not> targets_reserved ev"
    unfolding published_eq by (rule probe_switches_no_reserved) simp
  then have "filter targets_reserved (published ctrl) = []"
    by (simp add: filter_empty_conv)
  ultimately show ?thesis by simp
qed

text \<open>Switch B has the local port 65534 and port 7: only port 7 is probed.\<close>

theorem execute_never_probes_reserved_port_witness:
  "execute (inventory [without_reserved switch_B]) = execute (inventory [switch_B])
   \<and> filter targets_reserved (published (inventory [switch_B])) = []
   \<and> map output_ports (published (inventory [switch_B])) = [[7]]"
proof -
  have "map output_ports (published (inventory [switch_B])) = [[7]]"
    by (simp add: published_eq inventory_simps probe_switch_B output_ports_def)
  with execute_never_probes_reserved_port [of "inventory [switch_B]"]
  show ?thesis by (simp add: inventory_def switch_B_def without_reserved_def)
qed

section \<open>The command builder\<close>

text \<open>
  C4. For a version other than 0x01 and 0x04, \<open>None\<close> included,
  \<open>build_lldp_packet_out\<close> returns \<open>None\<close> for every port number and payload (the
  function is total: it raises nothing); for 0x01 and for 0x04 it returns the message of
  that version whose data is the payload and whose action list is the single output
  action of that version to the given port.
\<close>

theorem build_lldp_packet_out_result:
  "(v \<noteq> Some 0x01 \<and> v \<noteq> Some 0x04 \<longrightarrow> build_lldp_packet_out v p d = None)
   \<and> build_lldp_packet_out (Some 0x01) p d
       = Some \<lparr>po_class = V0x01, actions = [\<lparr>ao_class = V0x01, port = p\<rparr>], po_data = d\<rparr>
   \<and> build_lldp_packet_out (Some 0x04) p d
       = Some \<lparr>po_class = V0x04, actions = [\<lparr>ao_class = V0x04, port = p\<rparr>], po_data = d\<rparr>"
  by (simp add: build_lldp_packet_out_def)

text \<open>The version \<open>None\<close> of a switch without a connection, and version 0x04.\<close>

theorem build_lldp_packet_out_result_witness:
  "(None \<noteq> Some (0x01::int) \<and> None \<noteq> Some (0x04::int))
   \<and> build_lldp_packet_out None 3 [0xAA, 0xBB] = None
   \<and> build_lldp_packet_out (Some 0x04) 3 [0xAA, 0xBB]
       = Some \<lparr>po_class = V0x04, actions = [\<lparr>ao_class = V0x04, port = 3\<rparr>], po_data = [0xAA, 0xBB]\<rparr>"
  using build_lldp_packet_out_result [of None 3 "[0xAA, 0xBB]"]
  by simp

section \<open>Round trip of the probe\<close>

text \<open>
  C1, at the failing input: scenario 1 of the spec, switch A (datapath identifier 0x1,
  connected, version 0x04) with port 3 held as a plain integer. Line 43 stores the
  port number as it is, where line 42 wraps the datapath identifier in a \<open>DPID\<close>
  object; \<open>lldp.pack()\<close> of line 49 calls \<open>pack\<close> on the stored integer and raises
  \<open>AttributeError\<close>. The exception leaves \<open>execute\<close>, no frame is built and nothing is
  published, so there are no bytes to feed to the Correlator.
\<close>

theorem execute_raises_on_plain_port_number:
  "execute (inventory [switch_A]) = (Some AttributeError, no_buffers)"
  by (simp add: execute_def inventory_simps probe_switch_A no_buffers_def)

text \<open>
  With the port number held as a \<open>UBInt16\<close> object, which is what line 90 of the
  Correlator unpacks, the round trip holds for both versions, every datapath identifier
  and every port number other than 65534: the tick publishes one command around the
  probe frame, and the decode steps of the Correlator on that frame give back the
  datapath identifier and the port number.
\<close>

lemma probe_roundtrip_of_packed_port:
  assumes "V = 0x01 \<or> V = 0x04"
    and "port_number iface = UBInt16 P" and "P \<noteq> 65534"
    and "is_connected sw" and "of_version sw = Inr (Some V)"
    and "interfaces sw = ([iface], None)"
  shows "\<exists>po eth l.
      published (ctrl\<lparr>switches := [(k, sw)]\<rparr>)
        = [\<lparr>name = ''diraol/of_lldp.messages.out.ofpt_packet_out'',
            content = PacketOutContent (connection sw) po\<rparr>]
    \<and> probe_frame sw iface = Inr (po_data po)
    \<and> build_lldp_packet_out (Some V) P (po_data po) = Some po
    \<and> unpack_non_empty (unpack_Ethernet pyof) (BinaryData (po_data po)) = Inr eth
    \<and> ether_type eth = EtherType_LLDP
    \<and> unpack_non_empty (unpack_LLDP pyof) (BinaryData (eth_data eth)) = Inr l
    \<and> unpack_non_empty (unpack_DPID pyof) (BinaryData (sub_value (chassis_id l))) = Inr (dpid sw)
    \<and> unpack_non_empty (unpack_UBInt16 pyof) (BinaryData (sub_value (port_id l))) = Inr P"
proof -
  define frame where "frame = probe_wire (dpid sw) P (address iface)"
  define po where "po = \<lparr>po_class = (if V = 0x01 then V0x01 else V0x04),
                          actions = [\<lparr>ao_class = (if V = 0x01 then V0x01 else V0x04), port = P\<rparr>],
                          po_data = frame\<rparr>"
  have data: "po_data po = frame"
    by (simp add: po_def)
  have f: "probe_frame sw iface = Inr frame"
    using assms(2) by (simp add: probe_frame_packed frame_def)
  have build: "build_lldp_packet_out (Some V) P frame = Some po"
    using assms(1) by (auto simp: build_lldp_packet_out_def po_def)
  have pub: "published (ctrl\<lparr>switches := [(k, sw)]\<rparr>)
        = [\<lparr>name = ''diraol/of_lldp.messages.out.ofpt_packet_out'',
            content = PacketOutContent (connection sw) po\<rparr>]"
    using assms f build by (auto simp: published_eq probe_switch_def put_def)
  have dec: "unpack_non_empty (unpack_Ethernet pyof) (BinaryData frame)
               = Inr (probe_wire_ethernet (dpid sw) P (address iface))"
    by (simp add: frame_def probe_wire_decodes(1))
  from pub f build dec probe_wire_decodes(2-5) [of "dpid sw" P]
  show ?thesis unfolding data [symmetric] by blast
qed

section \<open>Frames that are not probes\<close>

text \<open>
  C5. When the bytes of the event decode to an Ethernet frame whose ethertype is not
  LLDP, \<open>notify_uplink_detected\<close> returns normally and leaves both buffers as they
  were, for every decoder library, inventory and payload.
\<close>

theorem notify_ignores_other_ethertypes:
  assumes "unpack_non_empty (unpack_Ethernet lib) (pi_data (ev_message event)) = Inr eth"
    and "ether_type eth \<noteq> EtherType_LLDP"
  shows "notify_uplink_detected lib ctrl event = (None, buffers ctrl)"
  using assms by (simp add: notify_uplink_detected_def)

text \<open>An IPv4 frame arriving at port 7 of switch B.\<close>

theorem notify_ignores_other_ethertypes_witness:
  "ether_type \<lparr>eth_destination = LLDP_MULTICAST_MAC, source = 0xAABBCCDDEE09,
               ether_type = 0x0800, eth_data = [0x45, 0x00]\<rparr> \<noteq> EtherType_LLDP
   \<and> notify_uplink_detected pyof (inventory [switch_A, switch_B])
         (packet_in_at switch_B 7 (frame_with 0x0800 [0x45, 0x00])) = (None, no_buffers)"
  using notify_ignores_other_ethertypes [OF frame_with_decodes,
      of "0x0800" "[0x45, 0x00]" "inventory [switch_A, switch_B]" switch_B 7]
  by (simp add: EtherType_LLDP_def inventory_def)

text \<open>
  C6, at the failing input: an LLDP frame whose payload is the single byte 0x02, too
  short for a TLV. The unpack raises \<open>UnpackException\<close>, the handler catches
  \<open>struct.error\<close> only, and the exception leaves \<open>notify_uplink_detected\<close>.
\<close>

theorem notify_raises_on_short_lldp:
  "notify_uplink_detected pyof (inventory [switch_A, switch_B])
     (packet_in_at switch_B 7 (frame_with EtherType_LLDP [0x02]))
   = (Some UnpackException, no_buffers)"
  using notify_handler [OF frame_with_decodes, of EtherType_LLDP "[0x02]" UnpackException
      "inventory [switch_A, switch_B]" switch_B 7]
  by (simp add: unpack_non_empty_def pyof_def LLDP_unpack_def TLV_unpack_def inventory_def)

text \<open>
  The failure that the handler does catch: a chassis id that is the string \<open>abc\<close>
  (sub-type 5), too short for a datapath identifier, is dropped.
\<close>

lemma notify_drops_string_chassis_id:
  "notify_uplink_detected pyof (inventory [switch_A, switch_B])
     (packet_in_at switch_B 7
        (frame_with EtherType_LLDP [0x02, 0x04, 0x05, 0x61, 0x62, 0x63, 0x04, 0x03, 0x07, 0x00, 0x03]))
   = (None, no_buffers)"
  by code_simp

section \<open>The link event\<close>

text \<open>
  C10. There is no distinctness check: when the decoded datapath identifier resolves to
  the very switch the frame arrived on, \<open>notify_uplink_detected\<close> appends exactly one
  link event to the \<open>app\<close> buffer, whose two endpoints carry the identifier of that
  switch, with the ingress port and the decoded port (which may be equal).
\<close>

theorem notify_emits_link_without_distinctness_check:
  assumes "unpack_non_empty (unpack_Ethernet lib) (pi_data (ev_message event)) = Inr eth"
    and "ether_type eth = EtherType_LLDP"
    and "unpack_non_empty (unpack_LLDP lib) (BinaryData (eth_data eth)) = Inr l"
    and "unpack_non_empty (unpack_DPID lib) (BinaryData (sub_value (chassis_id l))) = Inr d"
    and "unpack_non_empty (unpack_UBInt16 lib) (BinaryData (sub_value (port_id l))) = Inr p"
    and "get_switch_by_dpid ctrl d = Some (source_switch event)"
  shows "notify_uplink_detected lib ctrl event =
           (None, (buffers ctrl)\<lparr>app := app (buffers ctrl)
                    @ [\<lparr>name = ''diraol/of_lldp.switch.link'',
                        content = LinkContent
                          \<lparr>ep_id = ident (source_switch event), ep_port = in_port (ev_message event)\<rparr>
                          \<lparr>ep_id = ident (source_switch event), ep_port = p\<rparr>\<rparr>]\<rparr>)"
  using notify_decoded [OF assms(1-5), of ctrl] assms(6)
  by (simp add: link_event_def)

text \<open>The probe of port 7 of switch B arriving at port 7 of switch B.\<close>

theorem notify_emits_link_without_distinctness_check_witness:
  "probe_frame switch_B port_B7 = Inr frame_B7
   \<and> get_switch_by_dpid (inventory [switch_A, switch_B]) (dpid switch_B) = Some switch_B
   \<and> notify_uplink_detected pyof (inventory [switch_A, switch_B])
         (packet_in_at switch_B 7 frame_B7)
       = (None, no_buffers\<lparr>app :=
            [\<lparr>name = ''diraol/of_lldp.switch.link'',
              content = LinkContent \<lparr>ep_id = ''00:00:00:00:00:00:00:02'', ep_port = 7\<rparr>
                                    \<lparr>ep_id = ''00:00:00:00:00:00:00:02'', ep_port = 7\<rparr>\<rparr>]\<rparr>)"
proof -
  have f: "probe_frame switch_B port_B7 = Inr frame_B7"
    using probe_frame_packed [of port_B7 7 switch_B]
    by (simp add: port_B7_def switch_B_def frame_B7_def)
  have g: "get_switch_by_dpid (inventory [switch_A, switch_B]) 0x2
             = Some (source_switch (packet_in_at switch_B 7 frame_B7))"
    by (simp add: get_switch_by_dpid_def inventory_def switch_A_def switch_B_def packet_in_at_def)
  have e: "unpack_non_empty (unpack_Ethernet pyof)
             (pi_data (ev_message (packet_in_at switch_B 7 frame_B7)))
           = Inr (probe_wire_ethernet 0x2 7 0xAABBCCDDEE02)"
    by (simp add: packet_in_at_data frame_B7_def probe_wire_decodes(1))
  have s: "source_switch (packet_in_at switch_B 7 frame_B7) = switch_B"
    "in_port (ev_message (packet_in_at switch_B 7 frame_B7)) = 7"
    "buffers (inventory [switch_A, switch_B]) = no_buffers" "app no_buffers = []"
    "ident switch_B = ''00:00:00:00:00:00:00:02''" "dpid switch_B = 0x2"
    by (simp_all add: packet_in_at_def inventory_def no_buffers_def switch_B_def)
  from notify_emits_link_without_distinctness_check [OF e probe_wire_decodes(2-5) g] g f
  show ?thesis
    unfolding s by simp
qed

text \<open>
  C8, as amended. There is no check of the lookup result: when the decoded datapath
  identifier is not in the inventory, reading the id of the absent switch raises
  \<open>AttributeError\<close>, which leaves \<open>notify_uplink_detected\<close>; no link event is published.
\<close>

theorem notify_raises_on_lookup_miss:
  assumes "unpack_non_empty (unpack_Ethernet lib) (pi_data (ev_message event)) = Inr eth"
    and "ether_type eth = EtherType_LLDP"
    and "unpack_non_empty (unpack_LLDP lib) (BinaryData (eth_data eth)) = Inr l"
    and "unpack_non_empty (unpack_DPID lib) (BinaryData (sub_value (chassis_id l))) = Inr d"
    and "unpack_non_empty (unpack_UBInt16 lib) (BinaryData (sub_value (port_id l))) = Inr p"
    and "get_switch_by_dpid ctrl d = None"
  shows "notify_uplink_detected lib ctrl event = (Some AttributeError, buffers ctrl)"
  using notify_decoded [OF assms(1-5), of ctrl] assms(6)
  by simp

text \<open>Scenario 3 of the spec: the frame of switch A, with no switch A in the inventory.\<close>

theorem notify_raises_on_lookup_miss_witness:
  "get_switch_by_dpid (inventory [switch_B]) (dpid switch_A) = None
   \<and> notify_uplink_detected pyof (inventory [switch_B]) (packet_in_at switch_B 7 frame_A3)
       = (Some AttributeError, no_buffers)"
proof -
  have g: "get_switch_by_dpid (inventory [switch_B]) 0x1 = None"
    by (simp add: get_switch_by_dpid_def inventory_def switch_B_def)
  have e: "unpack_non_empty (unpack_Ethernet pyof)
             (pi_data (ev_message (packet_in_at switch_B 7 frame_A3)))
           = Inr (probe_wire_ethernet 0x1 3 0xAABBCCDDEE01)"
    by (simp add: packet_in_at_data frame_A3_def probe_wire_decodes(1))
  from notify_raises_on_lookup_miss [OF e probe_wire_decodes(2-5) g] g
  show ?thesis by (simp add: inventory_def switch_A_def)
qed

text \<open>
  C8 as stated fails on scenario 3: the event is not skipped silently, the handler ends
  with an exception.
\<close>

theorem notify_lookup_miss_counterexample:
  "notify_uplink_detected pyof (inventory [switch_B]) (packet_in_at switch_B 7 frame_A3)
     \<noteq> (None, buffers (inventory [switch_B]))"
  by (simp add: notify_probe_wire frame_A3_def get_switch_by_dpid_def inventory_def switch_B_def)

section \<open>Exceptions during a tick\<close>





end
